theory Spec2Isabelle
  imports Main
begin

section \<open>Python strings\<close>

text \<open>
  A Python \<open>str\<close> is a sequence of Unicode code points, so it is modelled as a list of
  natural numbers; the operations of \<open>fishroom.py\<close> on \<open>msg.content\<close> count code points
  (\<open>count\<close>, \<open>split\<close>, the regular expression) except for \<open>encode('utf-8')\<close>, which
  counts bytes. \<open>str\<close> turns an ASCII literal of the source into its code points.
\<close>

type_synonym pystr = "nat list"

definition str :: "string \<Rightarrow> pystr" where
  "str s = map of_char s"

text \<open>\<open>msg.content.count('\n')\<close>: the number of line feeds (code point 10).\<close>

definition count_nl :: "pystr \<Rightarrow> nat" where
  "count_nl s = count_list s 10"

text \<open>
  \<open>s.encode('utf-8')\<close>: one to four bytes per code point. A lone surrogate
  (U+D800 to U+DFFF) has no UTF-8 encoding and makes Python raise \<open>UnicodeEncodeError\<close>;
  numbers from \<open>0x110000\<close> on are not code points and have no encoding either.
\<close>

definition utf8_char :: "nat \<Rightarrow> nat list option" where
  "utf8_char cp =
     (if cp < 0x80 then Some [cp]
      else if cp < 0x800 then Some [0xC0 + cp div 0x40, 0x80 + cp mod 0x40]
      else if 0xD800 \<le> cp \<and> cp < 0xE000 then None
      else if cp < 0x10000 then
        Some [0xE0 + cp div 0x1000, 0x80 + cp div 0x40 mod 0x40, 0x80 + cp mod 0x40]
      else if cp < 0x110000 then
        Some [0xF0 + cp div 0x40000, 0x80 + cp div 0x1000 mod 0x40,
              0x80 + cp div 0x40 mod 0x40, 0x80 + cp mod 0x40]
      else None)"

fun encode_utf8 :: "pystr \<Rightarrow> nat list option" where
  "encode_utf8 [] = Some []"
| "encode_utf8 (cp # cps) =
     (case utf8_char cp of
        None \<Rightarrow> None
      | Some bs \<Rightarrow>
          (case encode_utf8 cps of
             None \<Rightarrow> None
           | Some rest \<Rightarrow> Some (bs @ rest)))"

text \<open>\<open>s.split("\n")\<close>: the pieces between line feeds; never the empty list.\<close>

fun split_nl :: "pystr \<Rightarrow> pystr list" where
  "split_nl [] = [[]]"
| "split_nl (cp # cps) =
     (if cp = 10 then [] # split_nl cps
      else (case split_nl cps of
              [] \<Rightarrow> [[cp]]
            | l # ls \<Rightarrow> (cp # l) # ls))"

text \<open>
  \<open>re.match(r'^\s*$', line)\<close> on a \<open>str\<close> pattern: \<open>\s\<close> is Unicode white space
  (the characters for which \<open>str.isspace\<close> holds), and the pattern matches exactly the
  lines made of white space only.
\<close>

definition isspace :: "nat \<Rightarrow> bool" where
  "isspace cp =
     ((0x09 \<le> cp \<and> cp \<le> 0x0D) \<or> (0x1C \<le> cp \<and> cp \<le> 0x20) \<or> cp = 0x85 \<or> cp = 0xA0
      \<or> cp = 0x1680 \<or> (0x2000 \<le> cp \<and> cp \<le> 0x200A) \<or> cp = 0x2028 \<or> cp = 0x2029
      \<or> cp = 0x202F \<or> cp = 0x205F \<or> cp = 0x3000)"

definition blank :: "pystr \<Rightarrow> bool" where
  "blank line = list_all isspace line"

section \<open>The data model of \<open>models.py\<close>\<close>

datatype ChannelType = XMPP | IRC | Telegram

datatype MessageType = Text | Photo | Sticker | Event | Command

record Message =
  channel :: ChannelType
  sender :: pystr
  receiver :: pystr
  content :: pystr
  mtype :: MessageType
  date :: "pystr option"
  time :: "pystr option"
  media_url :: "pystr option"

section \<open>The collaborators of the forwarding loop\<close>

text \<open>
  The exceptions the loop can meet: a binding row without the key looked up, a content
  that cannot be encoded, and whatever the command collaborators raise.
\<close>

datatype error = KeyError | UnicodeEncodeError | Exception pystr

text \<open>
  A row of \<open>config['bindings']\<close> is a dictionary from the network tag to the address of
  the room on that network. \<open>ChannelType\<close>'s three constants are lower-case strings, so
  \<open>.lower()\<close> leaves them as they are and the row is indexed by the network itself.
  The table is kept as a list in the order \<open>bindings.items()\<close> yields it.
\<close>

type_synonym binding = "ChannelType \<rightharpoonup> pystr"

text \<open>
  A channel handle (\<open>Telegram\<close>, \<open>IRCHandle\<close>, \<open>XMPPHandle\<close>); the loop reads only its
  \<open>ChanTag\<close> and calls its \<open>send_msg\<close>.
\<close>

datatype adapter = Adapter (ChanTag: ChannelType)

type_synonym handler = "pystr \<Rightarrow> pystr list \<Rightarrow> Message \<Rightarrow> error + pystr option"

text \<open>
  What the loop reads from outside \<open>fishroom.py\<close>: the binding table,
  \<open>config.get("name")\<close>, and the two functions of the command module. A handler
  returns a reply string or \<open>None\<close>; each of the three calls may raise.
\<close>

record env =
  bindings :: "(pystr \<times> binding) list"
  config_name :: "pystr option"
  parse_command :: "pystr \<Rightarrow> error + pystr \<times> pystr list"
  get_command_handler :: "pystr \<Rightarrow> error + handler option"

text \<open>
  What the stores answer while one message is processed: the identifier returned by
  \<open>chat_logger.log(c, msg)\<close> and the result of \<open>text_store.new_paste\<close>
  (\<open>None\<close> when the paste failed).
\<close>

record replies =
  msg_id :: nat
  text_url :: "pystr option"

text \<open>
  The calls the loop makes, in the order it makes them: the two \<open>print\<close>s,
  \<open>chat_logger.log(room, message)\<close>,
  \<open>text_store.new_paste(content, sender, channel, date, time, msg_id)\<close> and
  \<open>adapter.send_msg(target, text)\<close>.
\<close>

datatype effect =
    Print Message "pystr option" nat
  | Log pystr Message
  | New_paste pystr pystr pystr "pystr option" "pystr option" nat
  | Print_failed
  | Send_msg adapter pystr pystr

text \<open>How the processing of one message ends: the loop goes on, or an exception leaves it.\<close>

datatype status = Next | Raised error

section \<open>\<open>ForwardingThread\<close>\<close>

text \<open>
  \<open>get_binding\<close> (lines 91 to 95): the first row whose address for the message's network
  is the message's receiver; indexing a row that lacks the network raises \<open>KeyError\<close>.
\<close>

fun get_binding :: "(pystr \<times> binding) list \<Rightarrow> Message \<Rightarrow> error + (pystr \<times> binding) option" where
  "get_binding [] msg = Inr None"
| "get_binding ((c, b) # rest) msg =
     (case b (channel msg) of
        None \<Rightarrow> Inl KeyError
      | Some addr \<Rightarrow>
          if receiver msg = addr then Inr (Some (c, b)) else get_binding rest msg)"

text \<open>\<open>msg_tmpl = "[{sender}] {content}"\<close>; \<open>ev_tmpl = "{content}"\<close>.\<close>

definition msg_tmpl :: "pystr \<Rightarrow> pystr \<Rightarrow> pystr" where
  "msg_tmpl sndr line = str ''['' @ sndr @ str ''] '' @ line"

definition ev_tmpl :: "pystr \<Rightarrow> pystr" where
  "ev_tmpl c = c"

text \<open>
  Lines 106 to 116: the command hook. The result is the message as the rest of the loop
  sees it (its \<open>mtype\<close> set to \<open>Text\<close> when anything in the \<open>try\<close> block raised) and
  \<open>bot_reply\<close>.
\<close>

definition dispatch :: "env \<Rightarrow> Message \<Rightarrow> Message \<times> pystr option" where
  "dispatch e msg =
     (if mtype msg = Command then
        (case parse_command e (content msg) of
           Inl x \<Rightarrow> (msg\<lparr>mtype := Text\<rparr>, Some [])
         | Inr (cmd, args) \<Rightarrow>
             (case get_command_handler e cmd of
                Inl x \<Rightarrow> (msg\<lparr>mtype := Text\<rparr>, Some [])
              | Inr None \<Rightarrow> (msg, Some [])
              | Inr (Some h) \<Rightarrow>
                  (case h cmd args msg of
                     Inl x \<Rightarrow> (msg\<lparr>mtype := Text\<rparr>, Some [])
                   | Inr r \<Rightarrow> (msg, r))))
      else (msg, Some []))"

text \<open>Lines 122 to 125: the message under which a reply of the bot is logged.\<close>

definition reply_message :: "env \<Rightarrow> Message \<Rightarrow> pystr \<Rightarrow> Message" where
  "reply_message e msg r =
     \<lparr>channel = channel msg,
      sender = (case config_name e of None \<Rightarrow> str ''bot'' | Some n \<Rightarrow> n),
      receiver = receiver msg, content = r, mtype = Text,
      date = date msg, time = time msg, media_url = None\<rparr>"

text \<open>
  Lines 118 to 126: the message is logged, then the reply when \<open>if bot_reply:\<close> holds,
  that is for a non-empty string.
\<close>

definition log_calls :: "env \<Rightarrow> pystr \<Rightarrow> Message \<Rightarrow> pystr option \<Rightarrow> effect list" where
  "log_calls e c msg bot_reply =
     Log c msg #
     (case bot_reply of
        None \<Rightarrow> []
      | Some r \<Rightarrow> if r \<noteq> [] then [Log c (reply_message e msg r)] else [])"

text \<open>Lines 129 to 133: an event goes to the bound address of every channel handle.\<close>

fun send_event :: "binding \<Rightarrow> Message \<Rightarrow> adapter list \<Rightarrow> effect list \<times> status" where
  "send_event b msg [] = ([], Next)"
| "send_event b msg (c # cs) =
     (case b (ChanTag c) of
        None \<Rightarrow> ([], Raised KeyError)
      | Some target \<Rightarrow>
          (case send_event b msg cs of
             (es, st) \<Rightarrow> (Send_msg c target (ev_tmpl (content msg)) # es, st)))"

text \<open>
  Lines 136 and 137: the overflow test. \<open>or\<close> evaluates the byte length only when the
  line-feed count is at most 5.
\<close>

definition overflow :: "pystr \<Rightarrow> error + bool" where
  "overflow s =
     (if count_nl s > 5 then Inr True
      else (case encode_utf8 s of
              None \<Rightarrow> Inl UnicodeEncodeError
            | Some bs \<Rightarrow> Inr (length bs \<ge> 400)))"

text \<open>
  Lines 165 and 166: \<open>if bot_reply: c.send_msg(target, bot_reply)\<close>; the test holds for
  a non-empty string only.
\<close>

definition reply_calls :: "adapter \<Rightarrow> pystr \<Rightarrow> pystr option \<Rightarrow> effect list" where
  "reply_calls c target bot_reply =
     (case bot_reply of
        None \<Rightarrow> []
      | Some r \<Rightarrow> if r \<noteq> [] then [Send_msg c target r] else [])"

text \<open>Lines 157 to 166: the content lines and the reply, handle by handle.\<close>

fun fan_out ::
  "binding \<Rightarrow> Message \<Rightarrow> pystr list \<Rightarrow> bool \<Rightarrow> pystr option \<Rightarrow> adapter list \<Rightarrow> effect list \<times> status" where
  "fan_out b msg contents send_back bot_reply [] = ([], Next)"
| "fan_out b msg contents send_back bot_reply (c # cs) =
     (case b (ChanTag c) of
        None \<Rightarrow> ([], Raised KeyError)
      | Some target \<Rightarrow>
          (case fan_out b msg contents send_back bot_reply cs of
             (es, st) \<Rightarrow>
               ((if ChanTag c \<noteq> channel msg \<or> send_back
                 then map (\<lambda>line. Send_msg c target (msg_tmpl (sender msg) line)) contents
                 else [])
                @ reply_calls c target bot_reply
                @ es, st)))"

text \<open>Lines 135 to 166: a message that is not an event.\<close>

definition other_message ::
  "binding \<Rightarrow> pystr \<Rightarrow> Message \<Rightarrow> pystr option \<Rightarrow> adapter list \<Rightarrow> replies \<Rightarrow> effect list \<times> status" where
  "other_message b c msg bot_reply channels rep =
     (case overflow (content msg) of
        Inl x \<Rightarrow> ([], Raised x)
      | Inr True \<Rightarrow>
          (case text_url rep of
             None \<Rightarrow>
               ([New_paste (content msg) (sender msg) c (date msg) (time msg) (msg_id rep),
                 Print_failed], Next)
           | Some url \<Rightarrow>
               (case fan_out b msg [url @ str '' (long text)''] True bot_reply channels of
                  (es, st) \<Rightarrow>
                    (New_paste (content msg) (sender msg) c (date msg) (time msg) (msg_id rep)
                     # es, st)))
      | Inr False \<Rightarrow>
          fan_out b msg (filter (\<lambda>line. \<not> blank line) (split_nl (content msg)))
            False bot_reply channels)"

text \<open>Lines 101 to 166: the body of the loop for one message.\<close>

definition forward :: "env \<Rightarrow> adapter list \<Rightarrow> Message \<Rightarrow> replies \<Rightarrow> effect list \<times> status" where
  "forward e channels msg rep =
     (case get_binding (bindings e) msg of
        Inl x \<Rightarrow> ([], Raised x)
      | Inr found \<Rightarrow>
          (case encode_utf8 (content msg) of
             None \<Rightarrow> ([], Raised UnicodeEncodeError)
           | Some bs \<Rightarrow>
               (case found of
                  None \<Rightarrow> ([Print msg None (length bs)], Next)
                | Some (c, b) \<Rightarrow>
                    (case dispatch e msg of
                       (msg', bot_reply) \<Rightarrow>
                         (case (if mtype msg' = Event then send_event b msg' channels
                                else other_message b c msg' bot_reply channels rep) of
                            (es, st) \<Rightarrow>
                              (Print msg (Some c) (length bs)
                               # log_calls e c msg' bot_reply @ es, st))))))"

text \<open>
  Line 100: the loop over \<open>message_bus.message_stream()\<close>, here over a finite prefix of
  the stream, each message with the answers the stores give while it is processed. An
  exception ends the thread.
\<close>

fun ForwardingThread :: "env \<Rightarrow> adapter list \<Rightarrow> (Message \<times> replies) list \<Rightarrow> effect list \<times> status" where
  "ForwardingThread e channels [] = ([], Next)"
| "ForwardingThread e channels ((msg, rep) # rest) =
     (case forward e channels msg rep of
        (es, Raised x) \<Rightarrow> (es, Raised x)
      | (es, Next) \<Rightarrow>
          (case ForwardingThread e channels rest of
             (es', st) \<Rightarrow> (es @ es', st)))"

text \<open>
  The \<open>try\<close> block of lines 109 to 113 raises: in \<open>parse_command\<close>, in
  \<open>get_command_handler\<close>, or in the handler it returned.
\<close>

definition dispatch_raises :: "env \<Rightarrow> Message \<Rightarrow> bool" where
  "dispatch_raises e msg =
     (case parse_command e (content msg) of
        Inl x \<Rightarrow> True
      | Inr (cmd, args) \<Rightarrow>
          (case get_command_handler e cmd of
             Inl x \<Rightarrow> True
           | Inr None \<Rightarrow> False
           | Inr (Some h) \<Rightarrow> (case h cmd args msg of Inl x \<Rightarrow> True | Inr r \<Rightarrow> False)))"

section \<open>A configuration to run the loop on\<close>

text \<open>
  One room bound on the three networks, the three handles in the order \<open>main\<close> passes
  them, a command module that knows \<open>!ping\<close> (answers \<open>pong\<close>) and \<open>!boom\<close> (raises), and
  the two answers of the text store.
\<close>

definition room1 :: binding where
  "room1 = [IRC \<mapsto> str ''#a'', XMPP \<mapsto> str ''room@conf'', Telegram \<mapsto> str ''-100123'']"

definition addr1 :: "ChannelType \<Rightarrow> pystr" where
  "addr1 t = (case t of IRC \<Rightarrow> str ''#a'' | XMPP \<Rightarrow> str ''room@conf'' | Telegram \<Rightarrow> str ''-100123'')"

definition env1 :: env where
  "env1 =
     \<lparr>bindings = [(str ''room1'', room1)],
      config_name = None,
      parse_command =
        (\<lambda>s. if s = [] then Inl (Exception (str ''empty''))
             else Inr (takeWhile (\<lambda>cp. \<not> isspace cp) s, [])),
      get_command_handler =
        (\<lambda>cmd. if cmd = str ''!ping'' then Inr (Some (\<lambda>cmd args msg. Inr (Some (str ''pong''))))
               else if cmd = str ''!boom''
                 then Inr (Some (\<lambda>cmd args msg. Inl (Exception (str ''boom''))))
               else Inr None)\<rparr>"

definition channels1 :: "adapter list" where
  "channels1 = [Adapter Telegram, Adapter IRC, Adapter XMPP]"

definition from_alice :: "pystr \<Rightarrow> pystr \<Rightarrow> MessageType \<Rightarrow> Message" where
  "from_alice rcv c t =
     \<lparr>channel = IRC, sender = str ''alice'', receiver = rcv, content = c, mtype = t,
      date = None, time = None, media_url = None\<rparr>"

definition stored :: replies where
  "stored = \<lparr>msg_id = 7, text_url = Some (str ''http://p/1'')\<rparr>"

definition store_failed :: replies where
  "store_failed = \<lparr>msg_id = 7, text_url = None\<rparr>"

text \<open>
  The messages the loop is run on: an event, a three-line text whose middle line is
  blank, a text and a command of seven lines, two short commands, and a text for an
  address no room is bound to.
\<close>

definition joined :: Message where
  "joined = from_alice (str ''#a'') (str ''alice joined'') Event"

definition hi_yo :: Message where
  "hi_yo = from_alice (str ''#a'') (str ''hi\<newline> \<newline>yo'') Text"

definition seven_lines :: Message where
  "seven_lines = from_alice (str ''#a'') (str ''a\<newline>\<newline>\<newline>\<newline>\<newline>\<newline>b'') Text"

definition ping :: Message where
  "ping = from_alice (str ''#a'') (str ''!ping'') Command"

definition long_ping :: Message where
  "long_ping =
     from_alice (str ''#a'') (str ''!ping\<newline>\<newline>\<newline>\<newline>\<newline>\<newline>'') Command"

definition boom :: Message where
  "boom = from_alice (str ''#a'') (str ''!boom'') Command"

definition stray :: Message where
  "stray = from_alice (str ''#b'') (str ''hi'') Text"

text \<open>
  Two contents at the byte limit: 200 times U+00E9 (two bytes each, 400 bytes) and 399
  times the letter x.
\<close>

definition e200 :: Message where
  "e200 = from_alice (str ''#a'') (replicate 200 0xE9) Text"

definition x399 :: Message where
  "x399 = from_alice (str ''#a'') (replicate 399 0x78) Text"

section \<open>Strings: what the split, the blank test and the encoding do\<close>

text \<open>
  The pieces of \<open>split_nl\<close> are one more than the line feeds, none of them holds a line
  feed, and together they are the content without its line feeds; a line is blank when
  each of its characters is white space; a code point takes one to four bytes.
\<close>

lemma split_nl_nonempty: "split_nl s \<noteq> []"
  by (induction s) (auto split: list.splits)

lemma length_split_nl: "length (split_nl s) = Suc (count_nl s)"
  unfolding count_nl_def
  by (induction s) (auto split: list.splits simp: split_nl_nonempty)

lemma split_nl_no_line_feed: "l \<in> set (split_nl s) \<Longrightarrow> 10 \<notin> set l"
  by (induction s arbitrary: l) (auto split: list.splits if_splits)

lemma concat_split_nl: "concat (split_nl s) = filter (\<lambda>cp. cp \<noteq> 10) s"
  by (induction s) (auto split: list.splits)

lemma blank_iff: "blank l \<longleftrightarrow> (\<forall>cp\<in>set l. isspace cp)"
  by (simp add: blank_def list_all_iff)

lemma utf8_char_length:
  "utf8_char cp = Some bs \<Longrightarrow>
     length bs = (if cp < 0x80 then 1 else if cp < 0x800 then 2 else if cp < 0x10000 then 3 else 4)"
  by (auto simp: utf8_char_def split: if_splits)

lemma encode_utf8_replicate:
  "utf8_char cp = Some bs \<Longrightarrow> encode_utf8 (replicate n cp) = Some (concat (replicate n bs))"
  by (induction n) auto

lemma count_nl_replicate: "cp \<noteq> 10 \<Longrightarrow> count_nl (replicate n cp) = 0"
  by (induction n) (auto simp: count_nl_def)

lemma length_concat_replicate: "length (concat (replicate n bs)) = n * length bs"
  by (induction n) auto

section \<open>The steps of the loop\<close>

text \<open>
  The command hook changes nothing of a message but its \<open>mtype\<close>, and that only from
  \<open>Command\<close> to \<open>Text\<close>.
\<close>

lemma dispatch_keeps:
  assumes "dispatch e msg = (msg', r)"
  shows "channel msg' = channel msg" "sender msg' = sender msg" "receiver msg' = receiver msg"
    "content msg' = content msg" "date msg' = date msg" "time msg' = time msg"
    "media_url msg' = media_url msg"
  using assms
  by (auto simp: dispatch_def split: if_splits sum.splits option.splits prod.splits)

lemma dispatch_mtype:
  assumes "dispatch e msg = (msg', r)"
  shows "mtype msg' = mtype msg \<or> (mtype msg = Command \<and> mtype msg' = Text)"
  using assms
  by (auto simp: dispatch_def split: if_splits sum.splits option.splits prod.splits)

lemma dispatch_event_iff:
  assumes "dispatch e msg = (msg', r)"
  shows "mtype msg' = Event \<longleftrightarrow> mtype msg = Event"
  using dispatch_mtype [OF assms] by auto

lemma dispatch_no_command:
  "mtype msg \<noteq> Command \<Longrightarrow> dispatch e msg = (msg, Some [])"
  by (simp add: dispatch_def)

lemma dispatch_raises_downgrades:
  "mtype msg = Command \<Longrightarrow> dispatch_raises e msg \<Longrightarrow>
     dispatch e msg = (msg\<lparr>mtype := Text\<rparr>, Some [])"
  by (auto simp: dispatch_def dispatch_raises_def split: sum.splits option.splits prod.splits)

lemma dispatch_reply_command:
  "dispatch e msg = (msg', Some r) \<Longrightarrow> r \<noteq> [] \<Longrightarrow> mtype msg = Command \<and> msg' = msg"
  by (auto simp: dispatch_def split: if_splits sum.splits option.splits prod.splits)

text \<open>
  The binding lookup reads the network and the receiver only, and finds nothing when every
  row has another address for the network.
\<close>

lemma get_binding_none:
  "\<forall>(c, b)\<in>set rows. \<exists>addr. b (channel msg) = Some addr \<and> addr \<noteq> receiver msg \<Longrightarrow>
     get_binding rows msg = Inr None"
  by (induction rows) auto

lemma get_binding_retyped:
  "get_binding rows (msg\<lparr>mtype := t\<rparr>) = get_binding rows msg"
  by (induction rows) (auto split: option.splits)

text \<open>
  When the row has an address for every handle, neither loop over the handles raises, and
  the calls are those of the handles in order.
\<close>

lemma send_event_bound:
  assumes "\<forall>a\<in>set channels. b (ChanTag a) = Some (addr (ChanTag a))"
  shows "send_event b msg channels =
    (map (\<lambda>a. Send_msg a (addr (ChanTag a)) (content msg)) channels, Next)"
  using assms by (induction channels) (auto simp: ev_tmpl_def)

lemma fan_out_bound:
  assumes "\<forall>a\<in>set channels. b (ChanTag a) = Some (addr (ChanTag a))"
  shows "fan_out b msg contents send_back bot_reply channels =
    (concat (map (\<lambda>a.
        (if ChanTag a \<noteq> channel msg \<or> send_back
         then map (\<lambda>line. Send_msg a (addr (ChanTag a)) (msg_tmpl (sender msg) line)) contents
         else [])
        @ reply_calls a (addr (ChanTag a)) bot_reply) channels), Next)"
  using assms by (induction channels) auto

lemma fan_out_sends_only:
  "x \<in> set (fst (fan_out b msg contents send_back bot_reply channels)) \<Longrightarrow>
     \<exists>a t s. x = Send_msg a t s"
  by (induction channels arbitrary: x)
     (auto simp: reply_calls_def split: option.splits prod.splits if_splits)

lemma send_not_logged:
  "Send_msg a t s \<notin> set (log_calls e c msg bot_reply)"
  by (auto simp: log_calls_def split: option.splits)

text \<open>
  The overflow test on a content that encodes, and the three ways a message that is not an
  event leaves \<open>other_message\<close>.
\<close>

lemma overflow_encoded:
  "encode_utf8 s = Some bs \<Longrightarrow> overflow s = Inr (count_nl s > 5 \<or> length bs \<ge> 400)"
  by (simp add: overflow_def)

lemma other_message_overflow_stored:
  assumes "encode_utf8 (content msg) = Some bs"
    and "count_nl (content msg) > 5 \<or> length bs \<ge> 400"
    and "text_url rep = Some url"
    and "\<forall>a\<in>set channels. b (ChanTag a) = Some (addr (ChanTag a))"
  shows "other_message b c msg bot_reply channels rep =
    (New_paste (content msg) (sender msg) c (date msg) (time msg) (msg_id rep)
       # concat (map (\<lambda>a.
           Send_msg a (addr (ChanTag a)) (msg_tmpl (sender msg) (url @ str '' (long text)''))
           # reply_calls a (addr (ChanTag a)) bot_reply) channels), Next)"
  using assms(2,3) overflow_encoded [OF assms(1)] fan_out_bound [OF assms(4)]
  by (simp add: other_message_def)

lemma other_message_overflow_failed:
  assumes "encode_utf8 (content msg) = Some bs"
    and "count_nl (content msg) > 5 \<or> length bs \<ge> 400"
    and "text_url rep = None"
  shows "other_message b c msg bot_reply channels rep =
    ([New_paste (content msg) (sender msg) c (date msg) (time msg) (msg_id rep),
      Print_failed], Next)"
  using assms(2,3) overflow_encoded [OF assms(1)]
  by (simp add: other_message_def)

lemma other_message_inline:
  assumes "encode_utf8 (content msg) = Some bs"
    and "count_nl (content msg) \<le> 5" and "length bs < 400"
  shows "other_message b c msg bot_reply channels rep =
    fan_out b msg (filter (\<lambda>line. \<not> blank line) (split_nl (content msg))) False
      bot_reply channels"
  using assms(2,3) overflow_encoded [OF assms(1)]
  by (simp add: other_message_def)

text \<open>
  A routed message: the diagnostic print, the log calls, then the event loop or the text
  path.
\<close>

lemma forward_routed:
  assumes "get_binding (bindings e) msg = Inr (Some (c, b))"
    and "encode_utf8 (content msg) = Some bs"
    and "dispatch e msg = (msg', bot_reply)"
  shows "forward e channels msg rep =
    (Print msg (Some c) (length bs) # log_calls e c msg' bot_reply
       @ fst (if mtype msg = Event then send_event b msg' channels
              else other_message b c msg' bot_reply channels rep),
     snd (if mtype msg = Event then send_event b msg' channels
          else other_message b c msg' bot_reply channels rep))"
  using assms dispatch_event_iff [OF assms(3)]
  by (simp add: forward_def split: prod.splits)

text \<open>
  A routed event whose row has an address for every handle: the print, the log call, and
  one send of the content per handle, in the order of the handles.
\<close>

lemma forward_event:
  assumes "mtype msg = Event"
    and "get_binding (bindings e) msg = Inr (Some (c, b))"
    and "encode_utf8 (content msg) = Some bs"
    and "\<forall>a\<in>set channels. b (ChanTag a) = Some (addr (ChanTag a))"
  shows "forward e channels msg rep =
    (Print msg (Some c) (length bs) # Log c msg
       # map (\<lambda>a. Send_msg a (addr (ChanTag a)) (content msg)) channels, Next)"
proof -
  have d: "dispatch e msg = (msg, Some [])"
    using assms(1) by (simp add: dispatch_no_command)
  show ?thesis
    using forward_routed [OF assms(2) assms(3) d] assms(1) send_event_bound [OF assms(4)]
    by (simp add: log_calls_def)
qed

text \<open>
  The definitions a run on the configuration unfolds.
\<close>

lemmas fixture_defs = env1_def room1_def addr1_def channels1_def from_alice_def stored_def
  store_failed_def str_def joined_def hi_yo_def seven_lines_def ping_def long_ping_def
  boom_def stray_def e200_def x399_def

lemmas model_defs = forward_def dispatch_def log_calls_def reply_message_def
  other_message_def overflow_def count_nl_def utf8_char_def blank_def isspace_def
  msg_tmpl_def ev_tmpl_def reply_calls_def

section \<open>The claims\<close>

subsection \<open>C1: events\<close>

text \<open>
  C1 says that an event is sent to every handle but that of its origin network. The code
  departs from it: the loop of lines 129 to 133 has no test of \<open>ChanTag\<close> against
  \<open>msg.channel\<close>, which the loop of the text path has at line 159. On the event
  \<open>joined\<close>, which comes from the IRC room \<open>#a\<close> and resolves to \<open>room1\<close>, the IRC
  handle is among the handles and is sent the content at \<open>#a\<close>.
\<close>

theorem event_sent_back_to_origin:
  "mtype (from_alice (str ''#a'') (str ''alice joined'') Event) = Event
   \<and> get_binding (bindings env1) (from_alice (str ''#a'') (str ''alice joined'') Event)
       = Inr (Some (str ''room1'', room1))
   \<and> ChanTag (Adapter IRC) = channel (from_alice (str ''#a'') (str ''alice joined'') Event)
   \<and> Adapter IRC \<in> set channels1
   \<and> Send_msg (Adapter IRC) (str ''#a'') (str ''alice joined'')
       \<in> set (fst (forward env1 channels1
                     (from_alice (str ''#a'') (str ''alice joined'') Event) stored))"
  by (simp add: fixture_defs model_defs)

subsection \<open>C2: an overflowing message whose paste succeeds\<close>

text \<open>
  C2: for a message that is not an event, resolves to a binding whose row has an address
  for every handle, and has more than 5 line feeds or at least 400 bytes, when the text
  store returns \<open>url\<close> the loop prints, logs, calls the store, and then every handle, that
  of the origin network included, gets exactly one content send, the line
  \<open>[sender] url (long text)\<close>, at its bound address (followed by the reply of the bot
  when there is one).
\<close>

theorem overflow_link_sent_to_every_adapter:
  assumes "mtype msg \<noteq> Event"
    and "get_binding (bindings e) msg = Inr (Some (c, b))"
    and "encode_utf8 (content msg) = Some bs"
    and "\<forall>a\<in>set channels. b (ChanTag a) = Some (addr (ChanTag a))"
    and "count_nl (content msg) > 5 \<or> length bs \<ge> 400"
    and "text_url rep = Some url"
    and "dispatch e msg = (msg', bot_reply)"
  shows "forward e channels msg rep =
    (Print msg (Some c) (length bs) # log_calls e c msg' bot_reply
       @ New_paste (content msg) (sender msg) c (date msg) (time msg) (msg_id rep)
       # concat (map (\<lambda>a.
           Send_msg a (addr (ChanTag a)) (msg_tmpl (sender msg) (url @ str '' (long text)''))
           # reply_calls a (addr (ChanTag a)) bot_reply) channels), Next)"
proof -
  have enc: "encode_utf8 (content msg') = Some bs"
    using assms(3) dispatch_keeps(4) [OF assms(7)] by simp
  have big: "count_nl (content msg') > 5 \<or> length bs \<ge> 400"
    using assms(5) dispatch_keeps(4) [OF assms(7)] by simp
  show ?thesis
    using forward_routed [OF assms(2) assms(3) assms(7), of channels rep] assms(1)
      other_message_overflow_stored [OF enc big assms(6) assms(4), of c bot_reply]
      dispatch_keeps [OF assms(7)]
    by simp
qed

theorem overflow_link_sent_to_every_adapter_witness:
  "mtype seven_lines \<noteq> Event
   \<and> get_binding (bindings env1) seven_lines = Inr (Some (str ''room1'', room1))
   \<and> encode_utf8 (content seven_lines) = Some (content seven_lines)
   \<and> list_all (\<lambda>a. room1 (ChanTag a) = Some (addr1 (ChanTag a))) channels1
   \<and> count_nl (content seven_lines) = 6
   \<and> text_url stored = Some (str ''http://p/1'')
   \<and> dispatch env1 seven_lines = (seven_lines, Some [])
   \<and> forward env1 channels1 seven_lines stored =
      ([Print seven_lines (Some (str ''room1'')) 8,
        Log (str ''room1'') seven_lines,
        New_paste (content seven_lines) (str ''alice'') (str ''room1'') None None 7,
        Send_msg (Adapter Telegram) (str ''-100123'') (str ''[alice] http://p/1 (long text)''),
        Send_msg (Adapter IRC) (str ''#a'') (str ''[alice] http://p/1 (long text)''),
        Send_msg (Adapter XMPP) (str ''room@conf'') (str ''[alice] http://p/1 (long text)'')],
       Next)"
proof -
  have h1: "mtype seven_lines \<noteq> Event" by (simp add: fixture_defs)
  have h2: "get_binding (bindings env1) seven_lines = Inr (Some (str ''room1'', room1))"
    by (simp add: fixture_defs)
  have h3: "encode_utf8 (content seven_lines) = Some (content seven_lines)"
    by (simp add: fixture_defs utf8_char_def)
  have h4: "\<forall>a\<in>set channels1. room1 (ChanTag a) = Some (addr1 (ChanTag a))"
    by (simp add: fixture_defs)
  have n: "count_nl (content seven_lines) = 6"
    by (simp add: fixture_defs count_nl_def)
  have h5: "count_nl (content seven_lines) > 5 \<or> length (content seven_lines) \<ge> 400"
    using n by simp
  have h6: "text_url stored = Some (str ''http://p/1'')" by (simp add: fixture_defs)
  have h7: "dispatch env1 seven_lines = (seven_lines, Some [])"
    by (simp add: fixture_defs dispatch_def)
  show ?thesis
    using overflow_link_sent_to_every_adapter [OF h1 h2 h3 h4 h5 h6 h7] h1 h2 h3 h4 n h6 h7
    by (simp add: fixture_defs log_calls_def reply_calls_def msg_tmpl_def)
qed

subsection \<open>C3: the overflow test\<close>

text \<open>
  C3: for a routed message that is not an event, the text store is called if and only if
  the content has more than 5 line feeds or its UTF-8 encoding has at least 400 bytes.
\<close>

theorem overflow_fires_iff:
  assumes "mtype msg \<noteq> Event"
    and "get_binding (bindings e) msg = Inr (Some (c, b))"
    and "encode_utf8 (content msg) = Some bs"
  shows "New_paste (content msg) (sender msg) c (date msg) (time msg) (msg_id rep)
           \<in> set (fst (forward e channels msg rep))
         \<longleftrightarrow> count_nl (content msg) > 5 \<or> length bs \<ge> 400"
proof -
  obtain msg' bot_reply where d: "dispatch e msg = (msg', bot_reply)"
    by (cases "dispatch e msg")
  note keep = dispatch_keeps [OF d]
  have enc: "encode_utf8 (content msg') = Some bs"
    using assms(3) keep(4) by simp
  have fw: "fst (forward e channels msg rep) =
      Print msg (Some c) (length bs) # log_calls e c msg' bot_reply
        @ fst (other_message b c msg' bot_reply channels rep)"
    using forward_routed [OF assms(2) assms(3) d, of channels rep] assms(1) by simp
  have nolog: "New_paste p1 p2 p3 p4 p5 p6 \<notin> set (log_calls e c msg' bot_reply)"
    for p1 p2 p3 p4 p5 p6
    by (auto simp: log_calls_def split: option.splits)
  show ?thesis
  proof (cases "count_nl (content msg) > 5 \<or> length bs \<ge> 400")
    case True
    then have big: "count_nl (content msg') > 5 \<or> length bs \<ge> 400"
      using keep(4) by simp
    have "New_paste (content msg') (sender msg') c (date msg') (time msg') (msg_id rep)
            \<in> set (fst (other_message b c msg' bot_reply channels rep))"
      using big overflow_encoded [OF enc]
      by (auto simp: other_message_def split: option.splits prod.splits)
    then show ?thesis using True fw keep by simp
  next
    case False
    then have small: "count_nl (content msg') \<le> 5" "length bs < 400"
      using keep(4) by auto
    have "New_paste p1 p2 p3 p4 p5 p6
            \<notin> set (fst (other_message b c msg' bot_reply channels rep))"
      for p1 p2 p3 p4 p5 p6
      using fan_out_sends_only other_message_inline [OF enc small] by fastforce
    then show ?thesis using False fw nolog by simp
  qed
qed

text \<open>
  The theorem at three contents: 6 line feeds in 8 bytes (fires), 200 characters of two
  bytes each (400 bytes, fires), 399 bytes without a line feed (does not fire).
\<close>

theorem overflow_fires_iff_witness:
  "mtype seven_lines \<noteq> Event
   \<and> get_binding (bindings env1) seven_lines = Inr (Some (str ''room1'', room1))
   \<and> encode_utf8 (content seven_lines) = Some (content seven_lines)
   \<and> count_nl (content seven_lines) = 6 \<and> length (content seven_lines) = 8
   \<and> New_paste (content seven_lines) (str ''alice'') (str ''room1'') None None 7
        \<in> set (fst (forward env1 channels1 seven_lines stored))
   \<and> mtype e200 \<noteq> Event
   \<and> get_binding (bindings env1) e200 = Inr (Some (str ''room1'', room1))
   \<and> encode_utf8 (content e200) = Some (concat (replicate 200 [0xC3, 0xA9]))
   \<and> count_nl (content e200) = 0 \<and> length (concat (replicate 200 [0xC3, 0xA9::nat])) = 400
   \<and> New_paste (content e200) (str ''alice'') (str ''room1'') None None 7
        \<in> set (fst (forward env1 channels1 e200 stored))
   \<and> mtype x399 \<noteq> Event
   \<and> get_binding (bindings env1) x399 = Inr (Some (str ''room1'', room1))
   \<and> encode_utf8 (content x399) = Some (content x399)
   \<and> count_nl (content x399) = 0 \<and> length (content x399) = 399
   \<and> New_paste (content x399) (str ''alice'') (str ''room1'') None None 7
        \<notin> set (fst (forward env1 channels1 x399 stored))"
proof -
  have h1: "mtype seven_lines \<noteq> Event" by (simp add: fixture_defs)
  have h2: "get_binding (bindings env1) seven_lines = Inr (Some (str ''room1'', room1))"
    by (simp add: fixture_defs)
  have h3: "encode_utf8 (content seven_lines) = Some (content seven_lines)"
    by (simp add: fixture_defs utf8_char_def)
  have n: "count_nl (content seven_lines) = 6" "length (content seven_lines) = 8"
    by (simp_all add: fixture_defs count_nl_def)
  have e1: "mtype e200 \<noteq> Event" by (simp add: fixture_defs)
  have e2: "get_binding (bindings env1) e200 = Inr (Some (str ''room1'', room1))"
    by (simp add: fixture_defs)
  have e3: "encode_utf8 (content e200) = Some (concat (replicate 200 [0xC3, 0xA9]))"
    by (simp add: fixture_defs encode_utf8_replicate utf8_char_def)
  have en: "count_nl (content e200) = 0" "length (concat (replicate 200 [0xC3, 0xA9::nat])) = 400"
    by (simp_all add: fixture_defs count_nl_replicate length_concat_replicate)
  have k1: "mtype x399 \<noteq> Event" by (simp add: fixture_defs)
  have k2: "get_binding (bindings env1) x399 = Inr (Some (str ''room1'', room1))"
    by (simp add: fixture_defs)
  have k3: "encode_utf8 (content x399) = Some (content x399)"
    by (simp add: fixture_defs encode_utf8_replicate utf8_char_def)
  have m: "count_nl (content x399) = 0" "length (content x399) = 399"
    by (simp_all add: fixture_defs count_nl_replicate)
  have a: "sender seven_lines = str ''alice''" "date seven_lines = None"
    "time seven_lines = None" "msg_id stored = 7"
    "sender e200 = str ''alice''" "date e200 = None" "time e200 = None"
    "sender x399 = str ''alice''" "date x399 = None" "time x399 = None"
    by (simp_all add: fixture_defs)
  have p1: "New_paste (content seven_lines) (str ''alice'') (str ''room1'') None None 7
        \<in> set (fst (forward env1 channels1 seven_lines stored))"
    using overflow_fires_iff [OF h1 h2 h3, of stored channels1] n a by simp
  have p2: "New_paste (content e200) (str ''alice'') (str ''room1'') None None 7
        \<in> set (fst (forward env1 channels1 e200 stored))"
    using overflow_fires_iff [OF e1 e2 e3, of stored channels1] en a by simp
  have p3: "New_paste (content x399) (str ''alice'') (str ''room1'') None None 7
        \<notin> set (fst (forward env1 channels1 x399 stored))"
    using overflow_fires_iff [OF k1 k2 k3, of stored channels1] m a by simp
  show ?thesis
    using h1 h2 h3 n e1 e2 e3 en k1 k2 k3 m p1 p2 p3 by blast
qed

subsection \<open>C4: a message no room is bound to\<close>

text \<open>
  C4: when every row of the binding table has, for the network of the message, an address
  other than its receiver, the loop makes no call but the diagnostic print: no send, no
  log call, no call of the text store; it raises nothing and goes on with the next
  message.
\<close>

theorem unroutable_message_dropped:
  assumes "\<forall>(c, b)\<in>set (bindings e). \<exists>addr. b (channel msg) = Some addr \<and> addr \<noteq> receiver msg"
    and "encode_utf8 (content msg) = Some bs"
  shows "forward e channels msg rep = ([Print msg None (length bs)], Next)
    \<and> ForwardingThread e channels ((msg, rep) # rest) =
        (Print msg None (length bs) # fst (ForwardingThread e channels rest),
         snd (ForwardingThread e channels rest))"
proof -
  have fw: "forward e channels msg rep = ([Print msg None (length bs)], Next)"
    using get_binding_none [OF assms(1)] assms(2) by (simp add: forward_def)
  then show ?thesis by (simp split: prod.splits)
qed

theorem unroutable_message_dropped_witness:
  "bindings env1 = [(str ''room1'', room1)]
   \<and> room1 (channel stray) = Some (str ''#a'') \<and> str ''#a'' \<noteq> receiver stray
   \<and> encode_utf8 (content stray) = Some (content stray)
   \<and> forward env1 channels1 stray stored = ([Print stray None 2], Next)
   \<and> ForwardingThread env1 channels1 [(stray, stored), (joined, stored)] =
      ([Print stray None 2,
        Print joined (Some (str ''room1'')) 12,
        Log (str ''room1'') joined,
        Send_msg (Adapter Telegram) (str ''-100123'') (str ''alice joined''),
        Send_msg (Adapter IRC) (str ''#a'') (str ''alice joined''),
        Send_msg (Adapter XMPP) (str ''room@conf'') (str ''alice joined'')], Next)"
proof -
  have b: "bindings env1 = [(str ''room1'', room1)]" by (simp add: fixture_defs)
  have r: "room1 (channel stray) = Some (str ''#a'')" "str ''#a'' \<noteq> receiver stray"
    by (simp_all add: fixture_defs)
  have h1: "\<forall>(c, b)\<in>set (bindings env1).
      \<exists>addr. b (channel stray) = Some addr \<and> addr \<noteq> receiver stray"
    using b r by simp
  have h2: "encode_utf8 (content stray) = Some (content stray)"
    by (simp add: fixture_defs utf8_char_def)
  have l: "length (content stray) = 2" by (simp add: fixture_defs)
  have nxt: "ForwardingThread env1 channels1 [(joined, stored)] =
      ([Print joined (Some (str ''room1'')) 12,
        Log (str ''room1'') joined,
        Send_msg (Adapter Telegram) (str ''-100123'') (str ''alice joined''),
        Send_msg (Adapter IRC) (str ''#a'') (str ''alice joined''),
        Send_msg (Adapter XMPP) (str ''room@conf'') (str ''alice joined'')], Next)"
    by (simp add: fixture_defs model_defs)
  show ?thesis
    using unroutable_message_dropped [OF h1 h2, of channels1 stored "[(joined, stored)]"]
      b r h2 l nxt
    by simp
qed

subsection \<open>C5: the reply of the bot\<close>

text \<open>
  C5, as the code has it: for a routed message whose command hook yields a non-empty reply
  \<open>r\<close> (the row having an address for every handle), the reply is logged as a message
  whose sender is \<open>config.get("name", "bot")\<close>; and unless the message overflows and the
  text store fails, \<open>r\<close> is sent unformatted to the bound address of every handle, that of
  the origin network included.
\<close>

theorem reply_logged_and_sent_unless_dropped:
  assumes "get_binding (bindings e) msg = Inr (Some (c, b))"
    and "encode_utf8 (content msg) = Some bs"
    and "\<forall>a\<in>set channels. b (ChanTag a) = Some (addr (ChanTag a))"
    and "dispatch e msg = (msg', Some r)"
    and "r \<noteq> []"
  shows "Log c (reply_message e msg' r) \<in> set (fst (forward e channels msg rep))
    \<and> sender (reply_message e msg' r) = (case config_name e of None \<Rightarrow> str ''bot'' | Some n \<Rightarrow> n)
    \<and> (\<not> ((count_nl (content msg) > 5 \<or> length bs \<ge> 400) \<and> text_url rep = None) \<longrightarrow>
         (\<forall>a\<in>set channels. Send_msg a (addr (ChanTag a)) r \<in> set (fst (forward e channels msg rep))))"
proof -
  have cmd: "mtype msg = Command" and same: "msg' = msg"
    using dispatch_reply_command [OF assms(4) assms(5)] by simp_all
  have fw: "fst (forward e channels msg rep) =
      Print msg (Some c) (length bs) # log_calls e c msg (Some r)
        @ fst (other_message b c msg (Some r) channels rep)"
    using forward_routed [OF assms(1) assms(2) assms(4), of channels rep] cmd same by simp
  have logged: "Log c (reply_message e msg' r) \<in> set (fst (forward e channels msg rep))"
    using fw assms(5) same by (simp add: log_calls_def)
  have name: "sender (reply_message e msg' r) =
      (case config_name e of None \<Rightarrow> str ''bot'' | Some n \<Rightarrow> n)"
    by (simp add: reply_message_def)
  have sent: "\<forall>a\<in>set channels. Send_msg a (addr (ChanTag a)) r \<in> set (fst (forward e channels msg rep))"
    if keep: "\<not> ((count_nl (content msg) > 5 \<or> length bs \<ge> 400) \<and> text_url rep = None)"
  proof
    fix a assume a: "a \<in> set channels"
    have "Send_msg a (addr (ChanTag a)) r
            \<in> set (fst (fan_out b msg contents send_back (Some r) channels))"
      for contents send_back
      using a assms(5) by (force simp: fan_out_bound [OF assms(3)] reply_calls_def)
    moreover have "\<exists>contents send_back es.
        fst (other_message b c msg (Some r) channels rep) =
          es @ fst (fan_out b msg contents send_back (Some r) channels)"
    proof (cases "count_nl (content msg) > 5 \<or> length bs \<ge> 400")
      case True
      then obtain url where url: "text_url rep = Some url" using keep by auto
      have "fst (other_message b c msg (Some r) channels rep) =
          [New_paste (content msg) (sender msg) c (date msg) (time msg) (msg_id rep)]
          @ fst (fan_out b msg [url @ str '' (long text)''] True (Some r) channels)"
        using True url overflow_encoded [OF assms(2)]
        by (simp add: other_message_def split: prod.splits)
      then show ?thesis by blast
    next
      case False
      then have "fst (other_message b c msg (Some r) channels rep) =
          [] @ fst (fan_out b msg (filter (\<lambda>line. \<not> blank line) (split_nl (content msg)))
                  False (Some r) channels)"
        using other_message_inline [OF assms(2), of b c "Some r" channels rep] by simp
      then show ?thesis by blast
    qed
    ultimately show "Send_msg a (addr (ChanTag a)) r \<in> set (fst (forward e channels msg rep))"
      using fw by auto
  qed
  show ?thesis using logged name sent by blast
qed

theorem reply_logged_and_sent_unless_dropped_witness:
  "get_binding (bindings env1) ping = Inr (Some (str ''room1'', room1))
   \<and> encode_utf8 (content ping) = Some (content ping)
   \<and> list_all (\<lambda>a. room1 (ChanTag a) = Some (addr1 (ChanTag a))) channels1
   \<and> dispatch env1 ping = (ping, Some (str ''pong'')) \<and> str ''pong'' \<noteq> []
   \<and> count_nl (content ping) = 0 \<and> length (content ping) = 5
   \<and> Log (str ''room1'') (reply_message env1 ping (str ''pong''))
        \<in> set (fst (forward env1 channels1 ping stored))
   \<and> sender (reply_message env1 ping (str ''pong'')) = str ''bot''
   \<and> Send_msg (Adapter Telegram) (str ''-100123'') (str ''pong'')
        \<in> set (fst (forward env1 channels1 ping stored))
   \<and> Send_msg (Adapter IRC) (str ''#a'') (str ''pong'')
        \<in> set (fst (forward env1 channels1 ping stored))
   \<and> Send_msg (Adapter XMPP) (str ''room@conf'') (str ''pong'')
        \<in> set (fst (forward env1 channels1 ping stored))"
proof -
  have h1: "get_binding (bindings env1) ping = Inr (Some (str ''room1'', room1))"
    by (simp add: fixture_defs)
  have h2: "encode_utf8 (content ping) = Some (content ping)"
    by (simp add: fixture_defs utf8_char_def)
  have h3: "\<forall>a\<in>set channels1. room1 (ChanTag a) = Some (addr1 (ChanTag a))"
    by (simp add: fixture_defs)
  have h4: "dispatch env1 ping = (ping, Some (str ''pong''))"
    by (simp add: fixture_defs dispatch_def isspace_def)
  have h5: "str ''pong'' \<noteq> []" by (simp add: str_def)
  have n: "count_nl (content ping) = 0" "length (content ping) = 5"
    by (simp_all add: fixture_defs count_nl_def)
  have c: "config_name env1 = None" by (simp add: fixture_defs)
  have a: "channels1 = [Adapter Telegram, Adapter IRC, Adapter XMPP]"
    "addr1 Telegram = str ''-100123''" "addr1 IRC = str ''#a''" "addr1 XMPP = str ''room@conf''"
    by (simp_all add: fixture_defs)
  show ?thesis
    using reply_logged_and_sent_unless_dropped [OF h1 h2 h3 h4 h5, of stored] h1 h2 h3 h4 h5 n c
    by (simp add: a)
qed

text \<open>
  C5 as stated fails: \<open>long_ping\<close> is a command of seven lines answered by \<open>pong\<close>; when
  the text store fails the reply is logged and no handle is sent anything.
\<close>

theorem reply_not_sent_when_paste_fails:
  "get_binding (bindings env1) long_ping = Inr (Some (str ''room1'', room1))
   \<and> dispatch env1 long_ping = (long_ping, Some (str ''pong''))
   \<and> forward env1 channels1 long_ping store_failed =
      ([Print long_ping (Some (str ''room1'')) 11,
        Log (str ''room1'') long_ping,
        Log (str ''room1'') (reply_message env1 long_ping (str ''pong'')),
        New_paste (content long_ping) (str ''alice'') (str ''room1'') None None 7,
        Print_failed], Next)
   \<and> Send_msg (Adapter IRC) (str ''#a'') (str ''pong'')
        \<notin> set (fst (forward env1 channels1 long_ping store_failed))"
  by (simp add: fixture_defs model_defs)

subsection \<open>C6: a command that raises\<close>

text \<open>
  C6: for a routed message with \<open>mtype = Command\<close> whose parsing, handler lookup or handler
  raises, the hook yields the message with \<open>mtype = Text\<close> and the empty reply; the message
  is logged with \<open>mtype = Text\<close> and goes through the text path with the empty reply; and
  but for the diagnostic print, which shows the message as it came, the calls and the
  outcome are those of the same message sent as \<open>Text\<close>.
\<close>

theorem failed_command_relayed_as_text:
  assumes "mtype msg = Command"
    and "dispatch_raises e msg"
    and "get_binding (bindings e) msg = Inr (Some (c, b))"
    and "encode_utf8 (content msg) = Some bs"
  shows "dispatch e msg = (msg\<lparr>mtype := Text\<rparr>, Some [])
    \<and> fst (forward e channels msg rep) =
        Print msg (Some c) (length bs) # Log c (msg\<lparr>mtype := Text\<rparr>)
          # fst (other_message b c (msg\<lparr>mtype := Text\<rparr>) (Some []) channels rep)
    \<and> fst (forward e channels msg rep) =
        Print msg (Some c) (length bs) # tl (fst (forward e channels (msg\<lparr>mtype := Text\<rparr>) rep))
    \<and> snd (forward e channels msg rep) = snd (forward e channels (msg\<lparr>mtype := Text\<rparr>) rep)"
proof -
  let ?t = "msg\<lparr>mtype := Text\<rparr>"
  have d: "dispatch e msg = (?t, Some [])"
    using dispatch_raises_downgrades [OF assms(1) assms(2)] .
  have dt: "dispatch e ?t = (?t, Some [])"
    by (simp add: dispatch_no_command)
  have bt: "get_binding (bindings e) ?t = Inr (Some (c, b))"
    using assms(3) by (simp add: get_binding_retyped)
  have et: "encode_utf8 (content ?t) = Some bs"
    using assms(4) by simp
  have f1: "forward e channels msg rep =
      (Print msg (Some c) (length bs) # Log c ?t
         # fst (other_message b c ?t (Some []) channels rep),
       snd (other_message b c ?t (Some []) channels rep))"
    using forward_routed [OF assms(3) assms(4) d, of channels rep] assms(1)
    by (simp add: log_calls_def)
  have f2: "forward e channels ?t rep =
      (Print ?t (Some c) (length bs) # Log c ?t
         # fst (other_message b c ?t (Some []) channels rep),
       snd (other_message b c ?t (Some []) channels rep))"
    using forward_routed [OF bt et dt, of channels rep]
    by (simp add: log_calls_def)
  show ?thesis using d f1 f2 by simp
qed

theorem failed_command_relayed_as_text_witness:
  "mtype boom = Command \<and> dispatch_raises env1 boom
   \<and> get_binding (bindings env1) boom = Inr (Some (str ''room1'', room1))
   \<and> encode_utf8 (content boom) = Some (content boom)
   \<and> dispatch env1 boom = (boom\<lparr>mtype := Text\<rparr>, Some [])
   \<and> forward env1 channels1 (boom\<lparr>mtype := Text\<rparr>) stored =
      ([Print (boom\<lparr>mtype := Text\<rparr>) (Some (str ''room1'')) 5,
        Log (str ''room1'') (boom\<lparr>mtype := Text\<rparr>),
        Send_msg (Adapter Telegram) (str ''-100123'') (str ''[alice] !boom''),
        Send_msg (Adapter XMPP) (str ''room@conf'') (str ''[alice] !boom'')], Next)
   \<and> forward env1 channels1 boom stored =
      ([Print boom (Some (str ''room1'')) 5,
        Log (str ''room1'') (boom\<lparr>mtype := Text\<rparr>),
        Send_msg (Adapter Telegram) (str ''-100123'') (str ''[alice] !boom''),
        Send_msg (Adapter XMPP) (str ''room@conf'') (str ''[alice] !boom'')], Next)"
proof -
  have h1: "mtype boom = Command" by (simp add: fixture_defs)
  have h2: "dispatch_raises env1 boom"
    by (simp add: fixture_defs dispatch_raises_def isspace_def)
  have h3: "get_binding (bindings env1) boom = Inr (Some (str ''room1'', room1))"
    by (simp add: fixture_defs)
  have h4: "encode_utf8 (content boom) = Some (content boom)"
    by (simp add: fixture_defs utf8_char_def)
  have l: "length (content boom) = 5" by (simp add: fixture_defs)
  have t: "forward env1 channels1 (boom\<lparr>mtype := Text\<rparr>) stored =
      ([Print (boom\<lparr>mtype := Text\<rparr>) (Some (str ''room1'')) 5,
        Log (str ''room1'') (boom\<lparr>mtype := Text\<rparr>),
        Send_msg (Adapter Telegram) (str ''-100123'') (str ''[alice] !boom''),
        Send_msg (Adapter XMPP) (str ''room@conf'') (str ''[alice] !boom'')], Next)"
    by (simp add: fixture_defs model_defs)
  have p: "forward env1 channels1 boom stored =
      (fst (forward env1 channels1 boom stored), snd (forward env1 channels1 boom stored))"
    by simp
  show ?thesis
    using failed_command_relayed_as_text [OF h1 h2 h3 h4, of channels1 stored] h1 h2 h3 h4 l t p
    by simp
qed

subsection \<open>C7: an overflowing message whose paste fails\<close>

text \<open>
  C7: for a routed message that is not an event and has more than 5 line feeds or at least
  400 bytes, when the text store returns \<open>None\<close> no handle is sent anything, nothing is
  raised, and the loop goes on with the next message.
\<close>

theorem failed_paste_sends_nothing:
  assumes "mtype msg \<noteq> Event"
    and "get_binding (bindings e) msg = Inr (Some (c, b))"
    and "encode_utf8 (content msg) = Some bs"
    and "count_nl (content msg) > 5 \<or> length bs \<ge> 400"
    and "text_url rep = None"
  shows "snd (forward e channels msg rep) = Next
    \<and> (\<forall>a target text. Send_msg a target text \<notin> set (fst (forward e channels msg rep)))
    \<and> ForwardingThread e channels ((msg, rep) # rest) =
        (fst (forward e channels msg rep) @ fst (ForwardingThread e channels rest),
         snd (ForwardingThread e channels rest))"
proof -
  obtain msg' bot_reply where d: "dispatch e msg = (msg', bot_reply)"
    by (cases "dispatch e msg")
  note keep = dispatch_keeps [OF d]
  have enc: "encode_utf8 (content msg') = Some bs"
    using assms(3) keep(4) by simp
  have big: "count_nl (content msg') > 5 \<or> length bs \<ge> 400"
    using assms(4) keep(4) by simp
  have fw: "forward e channels msg rep =
      (Print msg (Some c) (length bs) # log_calls e c msg' bot_reply
         @ [New_paste (content msg') (sender msg') c (date msg') (time msg') (msg_id rep),
            Print_failed], Next)"
    using forward_routed [OF assms(2) assms(3) d, of channels rep] assms(1)
      other_message_overflow_failed [OF enc big assms(5), of b c bot_reply channels]
    by simp
  have nosend: "\<forall>a target text. Send_msg a target text \<notin> set (fst (forward e channels msg rep))"
    using fw send_not_logged by simp
  have loop: "ForwardingThread e channels ((msg, rep) # rest) =
        (fst (forward e channels msg rep) @ fst (ForwardingThread e channels rest),
         snd (ForwardingThread e channels rest))"
    using fw by (simp split: prod.splits)
  show ?thesis using fw nosend loop by simp
qed

theorem failed_paste_sends_nothing_witness:
  "mtype seven_lines \<noteq> Event
   \<and> get_binding (bindings env1) seven_lines = Inr (Some (str ''room1'', room1))
   \<and> encode_utf8 (content seven_lines) = Some (content seven_lines)
   \<and> count_nl (content seven_lines) = 6
   \<and> text_url store_failed = None
   \<and> snd (forward env1 channels1 seven_lines store_failed) = Next
   \<and> (\<forall>a target text.
         Send_msg a target text \<notin> set (fst (forward env1 channels1 seven_lines store_failed)))
   \<and> ForwardingThread env1 channels1 [(seven_lines, store_failed), (stray, stored)] =
        (fst (forward env1 channels1 seven_lines store_failed) @ [Print stray None 2], Next)"
proof -
  have h1: "mtype seven_lines \<noteq> Event" by (simp add: fixture_defs)
  have h2: "get_binding (bindings env1) seven_lines = Inr (Some (str ''room1'', room1))"
    by (simp add: fixture_defs)
  have h3: "encode_utf8 (content seven_lines) = Some (content seven_lines)"
    by (simp add: fixture_defs utf8_char_def)
  have n: "count_nl (content seven_lines) = 6"
    by (simp add: fixture_defs count_nl_def)
  have h4: "count_nl (content seven_lines) > 5 \<or> length (content seven_lines) \<ge> 400"
    using n by simp
  have h5: "text_url store_failed = None" by (simp add: fixture_defs)
  have nxt: "ForwardingThread env1 channels1 [(stray, stored)] = ([Print stray None 2], Next)"
    by (simp add: fixture_defs model_defs)
  show ?thesis
    using failed_paste_sends_nothing [OF h1 h2 h3 h4 h5, of channels1 "[(stray, stored)]"]
      h1 h2 h3 n h5 nxt
    by simp
qed

subsection \<open>C8: a message relayed inline\<close>

text \<open>
  C8: for a routed message that is not an event, with at most 5 line feeds and fewer than
  400 bytes (the row having an address for every handle), the content is split at the line
  feeds, the blank lines are dropped, and each handle of another network than the origin
  gets one send \<open>[sender] line\<close> per remaining line at its bound address, in order; the
  handle of the origin network gets no content line. The text store is not called.
\<close>

theorem short_message_relayed_line_by_line:
  assumes "mtype msg \<noteq> Event"
    and "get_binding (bindings e) msg = Inr (Some (c, b))"
    and "encode_utf8 (content msg) = Some bs"
    and "\<forall>a\<in>set channels. b (ChanTag a) = Some (addr (ChanTag a))"
    and "count_nl (content msg) \<le> 5" and "length bs < 400"
    and "dispatch e msg = (msg', bot_reply)"
  shows "forward e channels msg rep =
    (Print msg (Some c) (length bs) # log_calls e c msg' bot_reply
       @ concat (map (\<lambda>a.
           (if ChanTag a \<noteq> channel msg
            then map (\<lambda>line. Send_msg a (addr (ChanTag a)) (msg_tmpl (sender msg) line))
                   (filter (\<lambda>line. \<not> blank line) (split_nl (content msg)))
            else [])
           @ reply_calls a (addr (ChanTag a)) bot_reply) channels), Next)"
proof -
  note keep = dispatch_keeps [OF assms(7)]
  have enc: "encode_utf8 (content msg') = Some bs"
    using assms(3) keep(4) by simp
  have small: "count_nl (content msg') \<le> 5"
    using assms(5) keep(4) by simp
  have om: "other_message b c msg' bot_reply channels rep =
      (concat (map (\<lambda>a.
           (if ChanTag a \<noteq> channel msg
            then map (\<lambda>line. Send_msg a (addr (ChanTag a)) (msg_tmpl (sender msg) line))
                   (filter (\<lambda>line. \<not> blank line) (split_nl (content msg)))
            else [])
           @ reply_calls a (addr (ChanTag a)) bot_reply) channels), Next)"
    by (simp add: other_message_inline [OF enc small assms(6)] fan_out_bound [OF assms(4)] keep
        cong: if_cong)
  show ?thesis
    using forward_routed [OF assms(2) assms(3) assms(7), of channels rep] assms(1)
    by (simp add: om)
qed

text \<open>
  The theorem on \<open>hi_yo\<close>, whose middle line is a single space: two lines reach Telegram
  and XMPP, none reaches IRC.
\<close>

theorem short_message_relayed_line_by_line_witness:
  "mtype hi_yo \<noteq> Event
   \<and> get_binding (bindings env1) hi_yo = Inr (Some (str ''room1'', room1))
   \<and> encode_utf8 (content hi_yo) = Some (content hi_yo)
   \<and> list_all (\<lambda>a. room1 (ChanTag a) = Some (addr1 (ChanTag a))) channels1
   \<and> count_nl (content hi_yo) = 2 \<and> length (content hi_yo) = 7
   \<and> dispatch env1 hi_yo = (hi_yo, Some [])
   \<and> split_nl (content hi_yo) = [str ''hi'', str '' '', str ''yo'']
   \<and> forward env1 channels1 hi_yo stored =
      ([Print hi_yo (Some (str ''room1'')) 7,
        Log (str ''room1'') hi_yo,
        Send_msg (Adapter Telegram) (str ''-100123'') (str ''[alice] hi''),
        Send_msg (Adapter Telegram) (str ''-100123'') (str ''[alice] yo''),
        Send_msg (Adapter XMPP) (str ''room@conf'') (str ''[alice] hi''),
        Send_msg (Adapter XMPP) (str ''room@conf'') (str ''[alice] yo'')], Next)"
proof -
  have h1: "mtype hi_yo \<noteq> Event" by (simp add: fixture_defs)
  have h2: "get_binding (bindings env1) hi_yo = Inr (Some (str ''room1'', room1))"
    by (simp add: fixture_defs)
  have h3: "encode_utf8 (content hi_yo) = Some (content hi_yo)"
    by (simp add: fixture_defs utf8_char_def)
  have h4: "\<forall>a\<in>set channels1. room1 (ChanTag a) = Some (addr1 (ChanTag a))"
    by (simp add: fixture_defs)
  have n: "count_nl (content hi_yo) = 2" "length (content hi_yo) = 7"
    by (simp_all add: fixture_defs count_nl_def)
  have h5: "count_nl (content hi_yo) \<le> 5" and h6: "length (content hi_yo) < 400"
    using n by simp_all
  have h7: "dispatch env1 hi_yo = (hi_yo, Some [])"
    by (simp add: fixture_defs dispatch_def)
  have s: "split_nl (content hi_yo) = [str ''hi'', str '' '', str ''yo'']"
    by (simp add: fixture_defs)
  show ?thesis
    using short_message_relayed_line_by_line [OF h1 h2 h3 h4 h5 h6 h7, of stored]
      h1 h2 h3 h4 n h7 s
    by (simp add: fixture_defs log_calls_def reply_calls_def msg_tmpl_def blank_def isspace_def)
qed

subsection \<open>C10: what a failed paste leaves in the log\<close>

text \<open>
  C10: for a routed message that is not an event, overflows, and whose paste fails, the
  calls are: the diagnostic print, one log call for the message, the log call for the
  reply of the bot when there is one, the call of the text store, and the failure print.
  The log call for the message comes before the store is asked, and there is no send.
\<close>

theorem failed_paste_logged_once:
  assumes "mtype msg \<noteq> Event"
    and "get_binding (bindings e) msg = Inr (Some (c, b))"
    and "encode_utf8 (content msg) = Some bs"
    and "count_nl (content msg) > 5 \<or> length bs \<ge> 400"
    and "text_url rep = None"
    and "dispatch e msg = (msg', bot_reply)"
  shows "fst (forward e channels msg rep) =
    Print msg (Some c) (length bs) # Log c msg'
      # (case bot_reply of
           None \<Rightarrow> []
         | Some r \<Rightarrow> if r \<noteq> [] then [Log c (reply_message e msg' r)] else [])
      @ [New_paste (content msg) (sender msg) c (date msg) (time msg) (msg_id rep),
         Print_failed]"
proof -
  note keep = dispatch_keeps [OF assms(6)]
  have enc: "encode_utf8 (content msg') = Some bs"
    using assms(3) keep(4) by simp
  have big: "count_nl (content msg') > 5 \<or> length bs \<ge> 400"
    using assms(4) keep(4) by simp
  show ?thesis
    using forward_routed [OF assms(2) assms(3) assms(6), of channels rep] assms(1)
      other_message_overflow_failed [OF enc big assms(5), of b c bot_reply channels] keep
    by (simp add: log_calls_def)
qed

theorem failed_paste_logged_once_witness:
  "mtype long_ping \<noteq> Event
   \<and> get_binding (bindings env1) long_ping = Inr (Some (str ''room1'', room1))
   \<and> encode_utf8 (content long_ping) = Some (content long_ping)
   \<and> count_nl (content long_ping) = 6
   \<and> text_url store_failed = None
   \<and> dispatch env1 long_ping = (long_ping, Some (str ''pong''))
   \<and> fst (forward env1 channels1 long_ping store_failed) =
      [Print long_ping (Some (str ''room1'')) 11,
       Log (str ''room1'') long_ping,
       Log (str ''room1'') (reply_message env1 long_ping (str ''pong'')),
       New_paste (content long_ping) (str ''alice'') (str ''room1'') None None 7,
       Print_failed]"
proof -
  have h1: "mtype long_ping \<noteq> Event" by (simp add: fixture_defs)
  have h2: "get_binding (bindings env1) long_ping = Inr (Some (str ''room1'', room1))"
    by (simp add: fixture_defs)
  have h3: "encode_utf8 (content long_ping) = Some (content long_ping)"
    by (simp add: fixture_defs utf8_char_def)
  have n: "count_nl (content long_ping) = 6"
    by (simp add: fixture_defs count_nl_def)
  have h4: "count_nl (content long_ping) > 5 \<or> length (content long_ping) \<ge> 400"
    using n by simp
  have h5: "text_url store_failed = None" by (simp add: fixture_defs)
  have h6: "dispatch env1 long_ping = (long_ping, Some (str ''pong''))"
    by (simp add: fixture_defs dispatch_def isspace_def)
  have a: "sender long_ping = str ''alice''" "date long_ping = None" "time long_ping = None"
    "msg_id store_failed = 7" "length (content long_ping) = 11" "str ''pong'' \<noteq> []"
    by (simp_all add: fixture_defs)
  show ?thesis
    using failed_paste_logged_once [OF h1 h2 h3 h4 h5 h6, of channels1] h1 h2 h3 n h5 h6
    by (simp add: a)
qed

end
